theory Spec2Isabelle
  imports Complex_Main "HOL-Library.Word"
begin

section \<open>Wire codec\<close>

text \<open>
  Both programs exchange fixed-layout datagrams built with Python's \<^verbatim>\<open>struct\<close> module in
  network byte order (\<^verbatim>\<open>'!'\<close>: big-endian, no padding). A datagram is a list of bytes; the
  values packed and unpacked are Python integers, which do not overflow, so they are
  \<^typ>\<open>int\<close>. The exceptions the two programs can meet are values of \<open>py_error\<close>.
\<close>

type_synonym byte = "8 word"

datatype py_error =
    StructError
  | ValueError
  | UnicodeDecodeError
  | ZeroDivisionError
  | OSError

definition MAGIC_COOKIE :: int where
  "MAGIC_COOKIE = 0xabcddcba"

definition OFFER_TYPE :: int where
  "OFFER_TYPE = 0x2"

definition REQUEST_TYPE :: int where
  "REQUEST_TYPE = 0x3"

definition PAYLOAD_TYPE :: int where
  "PAYLOAD_TYPE = 0x4"

text \<open>An unsigned big-endian field read from, and written to, its bytes.\<close>

definition from_be :: "byte list \<Rightarrow> int" where
  "from_be bs = foldl (\<lambda>acc b. acc * 256 + uint b) 0 bs"

fun to_be :: "nat \<Rightarrow> int \<Rightarrow> byte list" where
  "to_be 0 x = []"
| "to_be (Suc n) x = to_be n (x div 256) @ [word_of_int x]"

text \<open>
  A format string is the list of its field widths in bytes: \<^verbatim>\<open>'!IBHH'\<close> is \<open>[4, 1, 2, 2]\<close>,
  \<^verbatim>\<open>'!IBQ'\<close> is \<open>[4, 1, 8]\<close> and \<^verbatim>\<open>'!IBQQ'\<close> is \<open>[4, 1, 8, 8]\<close>. \<^verbatim>\<open>struct.unpack\<close> raises
  \<^verbatim>\<open>struct.error\<close> unless the buffer has exactly the size of the format; \<^verbatim>\<open>struct.pack\<close>
  raises it when a value does not fit its unsigned field.
\<close>

definition fmt_IBHH :: "nat list" where
  "fmt_IBHH = [4, 1, 2, 2]"

definition fmt_IBQ :: "nat list" where
  "fmt_IBQ = [4, 1, 8]"

definition fmt_IBQQ :: "nat list" where
  "fmt_IBQQ = [4, 1, 8, 8]"

fun unpack_fields :: "nat list \<Rightarrow> byte list \<Rightarrow> int list" where
  "unpack_fields [] data = []"
| "unpack_fields (w # ws) data = from_be (take w data) # unpack_fields ws (drop w data)"

definition struct_unpack :: "nat list \<Rightarrow> byte list \<Rightarrow> py_error + int list" where
  "struct_unpack fmt data =
     (if length data \<noteq> sum_list fmt then Inl StructError else Inr (unpack_fields fmt data))"

fun struct_pack :: "nat list \<Rightarrow> int list \<Rightarrow> py_error + byte list" where
  "struct_pack [] [] = Inr []"
| "struct_pack (w # ws) (x # xs) =
     (if 0 \<le> x \<and> x < 256 ^ w
      then (case struct_pack ws xs of
              Inl e \<Rightarrow> Inl e
            | Inr bs \<Rightarrow> Inr (to_be w x @ bs))
      else Inl StructError)"
| "struct_pack _ _ = Inl StructError"

section \<open>Discovery\<close>

text \<open>
  \<^verbatim>\<open>udp_offer_sender\<close> (server.py) builds the Offer once:
  \<^verbatim>\<open>struct.pack('!IBHH', MAGIC_COOKIE, OFFER_TYPE, SERVER_UDP_PORT, SERVER_TCP_PORT)\<close>.
  The two ports come from the environment and are parameters here.
\<close>

definition offer_message :: "int \<Rightarrow> int \<Rightarrow> py_error + byte list" where
  "offer_message SERVER_UDP_PORT SERVER_TCP_PORT =
     struct_pack fmt_IBHH [MAGIC_COOKIE, OFFER_TYPE, SERVER_UDP_PORT, SERVER_TCP_PORT]"

text \<open>
  \<^verbatim>\<open>listen_for_offers\<close> (client.py) loops on \<^verbatim>\<open>recvfrom(2048)\<close>. What the socket hands to
  the loop is a list of events: a datagram (the bytes \<^verbatim>\<open>recvfrom\<close> returned, with the
  sender's address), a \<^verbatim>\<open>socket.timeout\<close>, or another socket error, which the function
  does not catch. When the events run out the function is still blocked in \<^verbatim>\<open>recvfrom\<close>.
  A \<^verbatim>\<open>struct.error\<close> and a \<^verbatim>\<open>socket.timeout\<close> both lead to \<^verbatim>\<open>continue\<close>; a datagram
  that unpacks but has another cookie or type falls through to the next iteration.
\<close>

type_synonym address = "string \<times> int"

datatype 'a outcome = Returned 'a | Raised py_error | Blocked

datatype recv_event =
    Datagram "byte list" address
  | SocketTimeout
  | SocketError

fun listen_for_offers :: "recv_event list \<Rightarrow> (string \<times> int \<times> int) outcome" where
  "listen_for_offers [] = Blocked"
| "listen_for_offers (Datagram data server_address # events) =
     (case struct_unpack fmt_IBHH data of
        Inr [magic_cookie, message_type, server_udp_port, server_tcp_port] \<Rightarrow>
          if magic_cookie = MAGIC_COOKIE \<and> message_type = OFFER_TYPE
          then Returned (fst server_address, server_tcp_port, server_udp_port)
          else listen_for_offers events
      | Inr _ \<Rightarrow> listen_for_offers events
      | Inl e \<Rightarrow> listen_for_offers events)"
| "listen_for_offers (SocketTimeout # events) = listen_for_offers events"
| "listen_for_offers (SocketError # events) = Raised OSError"

text \<open>
  The Offer layout on the wire, byte by byte: 9 bytes, of which the first four are the
  magic cookie and the fifth is the type \<open>0x02\<close>; bytes 5 and 6 hold the UDP port and
  bytes 7 and 8 the TCP port. An event leaves the listener waiting when it is a timeout or
  a datagram that is not such an Offer.
\<close>

definition is_offer :: "byte list \<Rightarrow> bool" where
  "is_offer data = (length data = 9 \<and> take 5 data = [0xAB, 0xCD, 0xDC, 0xBA, 0x02])"

definition ignored :: "recv_event \<Rightarrow> bool" where
  "ignored ev =
     (case ev of
        Datagram data server_address \<Rightarrow> \<not> is_offer data
      | SocketTimeout \<Rightarrow> True
      | SocketError \<Rightarrow> False)"

section \<open>TCP transfer server\<close>

text \<open>
  \<^verbatim>\<open>handle_tcp_connection\<close> (server.py) reads the request with
  \<^verbatim>\<open>client_socket.recv(1024).decode().strip()\<close> and tests it with
  \<^verbatim>\<open>not data or not data.isdigit() or int(data) <= 0\<close>. A Python \<^verbatim>\<open>str\<close> is a list of
  Unicode code points. \<^verbatim>\<open>decode()\<close> is the strict UTF-8 decoder. What \<^verbatim>\<open>strip\<close>,
  \<^verbatim>\<open>isdigit\<close> and \<^verbatim>\<open>int\<close> do with a code point is decided by the Unicode character
  database of the Python runtime, which is not part of the repository: it is the parameter
  \<open>db\<close>, with the white-space property, the digit property of \<^verbatim>\<open>str.isdigit\<close>, and the
  decimal value that \<^verbatim>\<open>int\<close> reads (defined for decimal digits only).
\<close>

type_synonym py_str = "nat list"

record unicode_db =
  isspace :: "nat \<Rightarrow> bool"
  isdigit :: "nat \<Rightarrow> bool"
  decimal :: "nat \<Rightarrow> nat option"

definition is_cont :: "byte \<Rightarrow> bool" where
  "is_cont c = (0x80 \<le> unat c \<and> unat c \<le> 0xBF)"

text \<open>
  One code point from the front of a UTF-8 byte string, with the bytes left over: one byte
  below \<open>0x80\<close>; a lead byte \<open>0xC2..0xDF\<close>, \<open>0xE0..0xEF\<close> or \<open>0xF0..0xF4\<close> followed by
  one, two or three continuation bytes, without overlong forms, surrogates or values above
  \<open>0x10FFFF\<close>. Anything else is a \<^verbatim>\<open>UnicodeDecodeError\<close>.
\<close>

fun utf8_next :: "byte list \<Rightarrow> (nat \<times> byte list) option" where
  "utf8_next [] = None"
| "utf8_next (b # bs) =
     (let u = unat b in
      if u < 0x80 then Some (u, bs)
      else if 0xC2 \<le> u \<and> u \<le> 0xDF then
        (case bs of
           c1 # r \<Rightarrow>
             if is_cont c1
             then Some ((u - 0xC0) * 64 + (unat c1 - 0x80), r)
             else None
         | _ \<Rightarrow> None)
      else if 0xE0 \<le> u \<and> u \<le> 0xEF then
        (case bs of
           c1 # c2 # r \<Rightarrow>
             if (if u = 0xE0 then 0xA0 else 0x80) \<le> unat c1 \<and>
                unat c1 \<le> (if u = 0xED then 0x9F else 0xBF) \<and> is_cont c2
             then Some ((u - 0xE0) * 4096 + (unat c1 - 0x80) * 64 + (unat c2 - 0x80), r)
             else None
         | _ \<Rightarrow> None)
      else if 0xF0 \<le> u \<and> u \<le> 0xF4 then
        (case bs of
           c1 # c2 # c3 # r \<Rightarrow>
             if (if u = 0xF0 then 0x90 else 0x80) \<le> unat c1 \<and>
                unat c1 \<le> (if u = 0xF4 then 0x8F else 0xBF) \<and> is_cont c2 \<and> is_cont c3
             then Some ((u - 0xF0) * 262144 + (unat c1 - 0x80) * 4096 +
                        (unat c2 - 0x80) * 64 + (unat c3 - 0x80), r)
             else None
         | _ \<Rightarrow> None)
      else None)"

function decode :: "byte list \<Rightarrow> py_error + py_str" where
  "decode bs =
     (if bs = [] then Inr []
      else case utf8_next bs of
             None \<Rightarrow> Inl UnicodeDecodeError
           | Some (c, r) \<Rightarrow>
               (case decode r of Inl e \<Rightarrow> Inl e | Inr cs \<Rightarrow> Inr (c # cs)))"
  by pat_completeness auto
termination
proof (relation "measure length")
  show "wf (measure length)" by simp
next
  fix bs :: "byte list" and x2 c r
  assume "bs \<noteq> []" and "utf8_next bs = Some x2" and "(c, r) = x2"
  then have "utf8_next bs = Some (c, r)" by simp
  then have "length r < length bs"
    by (cases bs) (auto simp: Let_def split: if_splits list.splits)
  then show "(r, bs) \<in> measure length" by simp
qed

declare decode.simps [simp del]

definition strip :: "unicode_db \<Rightarrow> py_str \<Rightarrow> py_str" where
  "strip db s = rev (dropWhile (isspace db) (rev (dropWhile (isspace db) s)))"

text \<open>\<^verbatim>\<open>str.isdigit\<close>: at least one character, and every character is a digit.\<close>

definition str_isdigit :: "unicode_db \<Rightarrow> py_str \<Rightarrow> bool" where
  "str_isdigit db s = (s \<noteq> [] \<and> list_all (isdigit db) s)"

text \<open>
  \<^verbatim>\<open>int(data)\<close> is reached only after \<^verbatim>\<open>data.isdigit()\<close> held, so the string has no
  sign, underscore or blank for \<^verbatim>\<open>int\<close> to skip: it is the base-10 value of the
  characters' decimal values, or a \<^verbatim>\<open>ValueError\<close> when a character has none (a digit
  that is not a decimal digit, such as a superscript).
\<close>

definition py_int :: "unicode_db \<Rightarrow> py_str \<Rightarrow> py_error + int" where
  "py_int db s =
     (if s \<noteq> [] \<and> list_all (\<lambda>c. decimal db c \<noteq> None) s
      then Inr (foldl (\<lambda>acc c. acc * 10 + int (the (decimal db c))) 0 s)
      else Inl ValueError)"

text \<open>
  The connected socket: what the one call of \<^verbatim>\<open>recv\<close> finds (the bytes that have
  arrived, or an error), the chunks written by \<^verbatim>\<open>sendall\<close> in order, how many calls of
  \<^verbatim>\<open>sendall\<close> succeed before the connection breaks (\<open>None\<close>: it never breaks), and
  whether the socket has been closed.
\<close>

record tcp_socket =
  rx :: "py_error + byte list"
  tx :: "byte list list"
  tx_budget :: "nat option"
  closed :: bool

definition recv :: "tcp_socket \<Rightarrow> nat \<Rightarrow> py_error + byte list" where
  "recv s bufsize = (case rx s of Inl e \<Rightarrow> Inl e | Inr bs \<Rightarrow> Inr (take bufsize bs))"

definition sendall :: "tcp_socket \<Rightarrow> byte list \<Rightarrow> py_error + tcp_socket" where
  "sendall s chunk =
     (case tx_budget s of
        None \<Rightarrow> Inr (s\<lparr>tx := tx s @ [chunk]\<rparr>)
      | Some 0 \<Rightarrow> Inl OSError
      | Some (Suc k) \<Rightarrow> Inr (s\<lparr>tx := tx s @ [chunk], tx_budget := Some k\<rparr>))"

definition tcp_close :: "tcp_socket \<Rightarrow> tcp_socket" where
  "tcp_close s = s\<lparr>closed := True\<rparr>"

definition chunk_size :: int where
  "chunk_size = 1024"

text \<open>
  The \<^verbatim>\<open>while total_bytes_sent < file_size_bytes\<close> loop. It returns the exception that
  ended it, if any, and the socket as it is then.
\<close>

function tcp_send_loop :: "int \<Rightarrow> int \<Rightarrow> tcp_socket \<Rightarrow> py_error option \<times> tcp_socket" where
  "tcp_send_loop file_size_bytes total_bytes_sent s =
     (if total_bytes_sent < file_size_bytes
      then (let remaining_bytes = file_size_bytes - total_bytes_sent;
                chunk_to_send = replicate (nat (min chunk_size remaining_bytes)) (0x61 :: byte)
            in case sendall s chunk_to_send of
                 Inl e \<Rightarrow> (Some e, s)
               | Inr s' \<Rightarrow>
                   tcp_send_loop file_size_bytes
                     (total_bytes_sent + int (length chunk_to_send)) s')
      else (None, s))"
  by pat_completeness auto
termination
  by (relation "measure (\<lambda>(file_size_bytes, total_bytes_sent, s).
                  nat (file_size_bytes - total_bytes_sent))")
     (auto simp: chunk_size_def)

declare tcp_send_loop.simps [simp del]

text \<open>
  The handler returns \<^verbatim>\<open>False\<close> on an invalid request and on any exception, \<^verbatim>\<open>True\<close>
  after the transfer, and closes the socket in its \<^verbatim>\<open>finally\<close> clause on every path.
\<close>

definition handle_tcp_connection :: "unicode_db \<Rightarrow> tcp_socket \<Rightarrow> bool \<times> tcp_socket" where
  "handle_tcp_connection db client_socket =
     (let (result, s) =
        (case recv client_socket 1024 of
           Inl e \<Rightarrow> (False, client_socket)
         | Inr raw \<Rightarrow>
             (case decode raw of
                Inl e \<Rightarrow> (False, client_socket)
              | Inr text \<Rightarrow>
                  (let data = strip db text in
                   if data = [] \<or> \<not> str_isdigit db data then (False, client_socket)
                   else case py_int db data of
                          Inl e \<Rightarrow> (False, client_socket)
                        | Inr file_size_bytes \<Rightarrow>
                            if file_size_bytes \<le> 0 then (False, client_socket)
                            else (case tcp_send_loop file_size_bytes 0 client_socket of
                                    (Some e, s') \<Rightarrow> (False, s')
                                  | (None, s') \<Rightarrow> (True, s')))))
      in (result, tcp_close s))"

text \<open>
  What the theorems below need from the Unicode character database: \<open>ascii_db db\<close> says
  that \<open>db\<close> is right about the characters of a request line as the clients write it, the
  ASCII digits (digits, with decimal values 0 to 9, not blank) and the newline (blank).
  \<open>latin_arabic_db\<close> is the database restricted to the ASCII range (blanks are
  \<open>0x09..0x0D\<close>, \<open>0x1C..0x1F\<close> and the space) and to the Arabic-Indic digits
  \<open>U+0660..U+0669\<close>, decimal digits with the values 0 to 9; it is used for concrete runs
  whose input has no other character.
\<close>

definition ascii_db :: "unicode_db \<Rightarrow> bool" where
  "ascii_db db =
     (isspace db 10 \<and>
      list_all (\<lambda>c. isdigit db c \<and> decimal db c = Some (c - 48) \<and> \<not> isspace db c) [48..<58])"

definition latin_arabic_db :: unicode_db where
  "latin_arabic_db = \<lparr>
     isspace = (\<lambda>c. (9 \<le> c \<and> c \<le> 13) \<or> (28 \<le> c \<and> c \<le> 32)),
     isdigit = (\<lambda>c. (48 \<le> c \<and> c \<le> 57) \<or> (1632 \<le> c \<and> c \<le> 1641)),
     decimal = (\<lambda>c. if 48 \<le> c \<and> c \<le> 57 then Some (c - 48)
                     else if 1632 \<le> c \<and> c \<le> 1641 then Some (c - 1632)
                     else None)\<rparr>"

section \<open>UDP transfer server\<close>

text \<open>
  The server's UDP socket: the datagrams handed to \<^verbatim>\<open>sendto\<close> with their destinations,
  in order, and how many calls of \<^verbatim>\<open>sendto\<close> succeed before one raises (\<open>None\<close>: none
  raises).
\<close>

record udp_socket =
  outgoing :: "(byte list \<times> address) list"
  out_budget :: "nat option"

definition sendto :: "udp_socket \<Rightarrow> byte list \<Rightarrow> address \<Rightarrow> py_error + udp_socket" where
  "sendto s dgram addr =
     (case out_budget s of
        None \<Rightarrow> Inr (s\<lparr>outgoing := outgoing s @ [(dgram, addr)]\<rparr>)
      | Some 0 \<Rightarrow> Inl OSError
      | Some (Suc k) \<Rightarrow>
          Inr (s\<lparr>outgoing := outgoing s @ [(dgram, addr)], out_budget := Some k\<rparr>))"

definition py_range :: "int \<Rightarrow> int list" where
  "py_range n = map int [0..<nat n]"

text \<open>The body of \<^verbatim>\<open>for chunk_number in range(chunks)\<close> in \<^verbatim>\<open>handle_udp_connection\<close>.\<close>

fun payload_loop ::
  "int \<Rightarrow> int \<Rightarrow> address \<Rightarrow> int list \<Rightarrow> udp_socket \<Rightarrow> py_error option \<times> udp_socket" where
  "payload_loop file_size chunks client_address [] s = (None, s)"
| "payload_loop file_size chunks client_address (chunk_number # rest) s =
     (case struct_pack fmt_IBQQ [MAGIC_COOKIE, PAYLOAD_TYPE, chunks, chunk_number] of
        Inl e \<Rightarrow> (Some e, s)
      | Inr payload_header \<Rightarrow>
          (let remaining_bytes = file_size - chunk_number * chunk_size;
               payload_message = replicate (nat (min chunk_size remaining_bytes)) (0x64 :: byte)
           in case sendto s (payload_header @ payload_message) client_address of
                Inl e \<Rightarrow> (Some e, s)
              | Inr s' \<Rightarrow> payload_loop file_size chunks client_address rest s'))"

definition handle_udp_connection ::
  "byte list \<Rightarrow> address \<Rightarrow> udp_socket \<Rightarrow> bool \<times> udp_socket" where
  "handle_udp_connection data client_address udp_socket =
     (if length data \<noteq> 13 then (False, udp_socket)
      else case struct_unpack fmt_IBQ data of
             Inl e \<Rightarrow> (False, udp_socket)
           | Inr [magic_cookie, message_type, file_size] \<Rightarrow>
               if magic_cookie \<noteq> MAGIC_COOKIE \<or> message_type \<noteq> REQUEST_TYPE
               then (False, udp_socket)
               else (let chunks = (file_size + chunk_size - 1) div chunk_size
                     in case payload_loop file_size chunks client_address
                               (py_range chunks) udp_socket of
                          (Some e, s') \<Rightarrow> (False, s')
                        | (None, s') \<Rightarrow> (True, s'))
           | Inr _ \<Rightarrow> (False, udp_socket))"

section \<open>Transfer clients\<close>

text \<open>
  Both clients compute \<^verbatim>\<open>segment_size = file_size // connections\<close>; Python raises
  \<^verbatim>\<open>ZeroDivisionError\<close> for a zero divisor, and \<^verbatim>\<open>//\<close> rounds towards minus infinity as
  \<open>div\<close> on \<^typ>\<open>int\<close> does. \<^verbatim>\<open>initiate_tcp_test\<close> sends
  \<^verbatim>\<open>f"{segment_size}\n".encode()\<close>, \<^verbatim>\<open>initiate_udp_test\<close> sends
  \<^verbatim>\<open>struct.pack('!IBQ', MAGIC_COOKIE, REQUEST_TYPE, segment_size)\<close>. The text of an
  integer is ASCII, which \<^verbatim>\<open>encode()\<close> maps to the same byte values.
\<close>

fun decimal_digits :: "nat \<Rightarrow> py_str" where
  "decimal_digits n =
     (if n < 10 then [48 + n] else decimal_digits (n div 10) @ [48 + n mod 10])"

declare decimal_digits.simps [simp del]

definition str_of_int :: "int \<Rightarrow> py_str" where
  "str_of_int x = (if x < 0 then 45 # decimal_digits (nat (- x)) else decimal_digits (nat x))"

definition encode :: "py_str \<Rightarrow> byte list" where
  "encode s = map of_nat s"




text \<open>
  The receive loop of \<^verbatim>\<open>initiate_udp_test\<close>. An event is a datagram returned by
  \<^verbatim>\<open>recvfrom(2048)\<close>, a \<^verbatim>\<open>socket.timeout\<close> together with the outcome of the test
  \<^verbatim>\<open>time.time() - last_received_time > 1\<close> made in its handler, or another socket error.
  The loop's state is the two counters. \<^verbatim>\<open>received_segments += 1\<close> is the first statement
  after \<^verbatim>\<open>recvfrom\<close>; the length test comes next; the tuple assignment from
  \<^verbatim>\<open>struct.unpack('!IBQQ', data[:21])\<close> stores the header's count into
  \<^verbatim>\<open>total_segment_count\<close>; the cookie and type test and the completion test follow.
\<close>

datatype udp_event = Recv "byte list" | RecvTimeout bool | RecvError

record transfer =
  received_segments :: int
  total_segment_count :: int

datatype loop_exit = Completed | Idle | Failed py_error | Waiting

fun udp_receive_loop :: "udp_event list \<Rightarrow> transfer \<Rightarrow> loop_exit \<times> transfer" where
  "udp_receive_loop [] st = (Waiting, st)"
| "udp_receive_loop (Recv data # events) st =
     (let st1 = st\<lparr>received_segments := received_segments st + 1\<rparr> in
      if length data < 21 then udp_receive_loop events st1
      else case struct_unpack fmt_IBQQ (take 21 data) of
             Inl e \<Rightarrow> (Failed e, st1)
           | Inr [magic_cookie, message_type, total_count, chunk_index] \<Rightarrow>
               (let st2 = st1\<lparr>total_segment_count := total_count\<rparr> in
                if magic_cookie \<noteq> MAGIC_COOKIE \<or> message_type \<noteq> PAYLOAD_TYPE
                then udp_receive_loop events st2
                else if received_segments st2 = total_segment_count st2
                then (Completed, st2)
                else udp_receive_loop events st2)
           | Inr _ \<Rightarrow> (Failed ValueError, st1))"
| "udp_receive_loop (RecvTimeout idle # events) st =
     (if idle then (Idle, st) else udp_receive_loop events st)"
| "udp_receive_loop (RecvError # events) st = (Failed OSError, st)"

definition transfer_start :: transfer where
  "transfer_start = \<lparr>received_segments = 0, total_segment_count = 0\<rparr>"

text \<open>
  \<^verbatim>\<open>(received_segments / total_segment_count) * 100 if total_segment_count != 0 else 0\<close>.
  The quotient is taken exactly, as a rational number; the rounding of Python's floating
  point division is not part of the model.
\<close>

definition success_rate :: "transfer \<Rightarrow> rat" where
  "success_rate st =
     (if total_segment_count st \<noteq> 0
      then (of_int (received_segments st) / of_int (total_segment_count st)) * 100
      else 0)"



section \<open>Properties of the codec\<close>

lemma from_be_snoc: "from_be (bs @ [b]) = from_be bs * 256 + uint b"
  by (simp add: from_be_def)

lemma from_be_nonneg: "0 \<le> from_be bs"
  by (induction bs rule: rev_induct) (simp_all add: from_be_snoc from_be_def)

lemma from_be_bound: "from_be bs < 256 ^ length bs"
proof (induction bs rule: rev_induct)
  case Nil
  show ?case by (simp add: from_be_def)
next
  case (snoc b bs)
  have "uint b < 256" using uint_bounded [of b] by simp
  with snoc show ?case by (simp add: from_be_snoc)
qed

lemma byte_of_shifted: "(word_of_int (k * 256 + uint b) :: byte) = b"
proof -
  have "(256 :: byte) = 0" by simp
  then have "(word_of_int k :: byte) * 256 = 0" by (simp only: mult_zero_right)
  then show ?thesis by simp
qed

lemma to_be_from_be: "to_be (length bs) (from_be bs) = bs"
proof (induction bs rule: rev_induct)
  case Nil
  show ?case by simp
next
  case (snoc b bs)
  have lo: "0 \<le> uint b" and hi: "uint b < 256"
    using uint_bounded [of b] by simp_all
  have d: "(from_be bs * 256 + uint b) div 256 = from_be bs"
    using lo hi by simp
  have "to_be (length (bs @ [b])) (from_be (bs @ [b])) =
        to_be (length bs) ((from_be bs * 256 + uint b) div 256) @
          [word_of_int (from_be bs * 256 + uint b)]"
    by (simp only: from_be_snoc length_append_singleton to_be.simps)
  also have "\<dots> = bs @ [b]"
    by (simp only: d snoc.IH byte_of_shifted)
  finally show ?case .
qed

lemma length_to_be: "length (to_be n x) = n"
  by (induction n arbitrary: x) simp_all

lemma from_be_to_be: "0 \<le> x \<Longrightarrow> x < 256 ^ n \<Longrightarrow> from_be (to_be n x) = x"
proof (induction n arbitrary: x)
  case 0
  then show ?case by (simp add: from_be_def)
next
  case (Suc n)
  have "x < 256 * (256 :: int) ^ n" using Suc.prems by simp
  then have q2: "x div 256 < 256 ^ n" by linarith
  have q1: "0 \<le> x div 256" using Suc.prems by simp
  note q = q1 q2
  have "uint (word_of_int x :: byte) = x mod 256"
    by (simp add: uint_word_of_int)
  with Suc.IH [OF q] show ?case
    by (simp add: from_be_snoc)
qed

lemma struct_pack_fields:
  "length data = sum_list fmt \<Longrightarrow> struct_pack fmt (unpack_fields fmt data) = Inr data"
proof (induction fmt arbitrary: data)
  case Nil
  then show ?case by simp
next
  case (Cons w ws)
  have len: "length (take w data) = w" using Cons.prems by simp
  have rest: "length (drop w data) = sum_list ws" using Cons.prems by simp
  have "from_be (take w data) < 256 ^ w"
    using from_be_bound [of "take w data"] len by simp
  moreover have "to_be w (from_be (take w data)) = take w data"
    using to_be_from_be [of "take w data"] len by simp
  ultimately show ?case
    using Cons.IH [OF rest] by (simp add: from_be_nonneg)
qed

text \<open>
  C6. Every 9-byte datagram, and so every valid Offer, unpacks with \<^verbatim>\<open>'!IBHH'\<close> into four
  fields (magic cookie, type, UDP port, TCP port), and packing those four fields with the
  same format gives the original 9 bytes back.
\<close>

theorem offer_roundtrip:
  assumes "length data = 9"
  shows "\<exists>magic_cookie message_type server_udp_port server_tcp_port.
           struct_unpack fmt_IBHH data =
             Inr [magic_cookie, message_type, server_udp_port, server_tcp_port] \<and>
           struct_pack fmt_IBHH
             [magic_cookie, message_type, server_udp_port, server_tcp_port] = Inr data"
proof -
  have sz: "length data = sum_list fmt_IBHH"
    using assms by (simp add: fmt_IBHH_def)
  have unp: "struct_unpack fmt_IBHH data = Inr (unpack_fields fmt_IBHH data)"
    using sz by (simp add: struct_unpack_def)
  have shape: "unpack_fields fmt_IBHH data =
      [from_be (take 4 data), from_be (take 1 (drop 4 data)),
       from_be (take 2 (drop 5 data)), from_be (take 2 (drop 7 data))]"
    by (simp add: fmt_IBHH_def)
  have "struct_pack fmt_IBHH (unpack_fields fmt_IBHH data) = Inr data"
    using sz by (rule struct_pack_fields)
  with unp shape show ?thesis by metis
qed

theorem offer_roundtrip_witness:
  "length [0xAB, 0xCD, 0xDC, 0xBA, 0x02, 0x3A, 0x98, 0x3E, 0x80 :: byte] = 9 \<and>
   struct_unpack fmt_IBHH [0xAB, 0xCD, 0xDC, 0xBA, 0x02, 0x3A, 0x98, 0x3E, 0x80] =
     Inr [0xabcddcba, 2, 15000, 16000] \<and>
   struct_pack fmt_IBHH [0xabcddcba, 2, 15000, 16000] =
     Inr [0xAB, 0xCD, 0xDC, 0xBA, 0x02, 0x3A, 0x98, 0x3E, 0x80]"
proof -
  let ?d = "[0xAB, 0xCD, 0xDC, 0xBA, 0x02, 0x3A, 0x98, 0x3E, 0x80 :: byte]"
  have len: "length ?d = 9" by simp
  have u: "struct_unpack fmt_IBHH ?d = Inr [0xabcddcba, 2, 15000, 16000]"
    by (simp add: struct_unpack_def fmt_IBHH_def from_be_def)
  from offer_roundtrip [OF len] u
  have "struct_pack fmt_IBHH [0xabcddcba, 2, 15000, 16000] = Inr ?d"
    by auto
  with len u show ?thesis by simp
qed

section \<open>Properties of the discovery listener\<close>

lemma from_be_inj:
  assumes "length xs = length ys"
  shows "from_be xs = from_be ys \<longleftrightarrow> xs = ys"
proof
  assume eq: "from_be xs = from_be ys"
  have "xs = to_be (length xs) (from_be xs)" by (simp add: to_be_from_be)
  also have "\<dots> = to_be (length ys) (from_be ys)" using assms eq by simp
  also have "\<dots> = ys" by (simp add: to_be_from_be)
  finally show "xs = ys" .
qed simp

lemma from_be_cookie_iff:
  assumes "length bs = 4"
  shows "from_be bs = MAGIC_COOKIE \<longleftrightarrow> bs = [0xAB, 0xCD, 0xDC, 0xBA]"
proof -
  have "from_be [0xAB, 0xCD, 0xDC, 0xBA] = MAGIC_COOKIE"
    by (simp add: from_be_def MAGIC_COOKIE_def)
  with from_be_inj [of bs "[0xAB, 0xCD, 0xDC, 0xBA]"] assms show ?thesis by simp
qed

lemma from_be_offer_type_iff:
  assumes "length bs = 1"
  shows "from_be bs = OFFER_TYPE \<longleftrightarrow> bs = [0x02]"
proof -
  have "from_be [0x02] = OFFER_TYPE"
    by (simp add: from_be_def OFFER_TYPE_def)
  with from_be_inj [of bs "[0x02]"] assms show ?thesis by simp
qed

lemma take5_split: "take 5 data = take 4 data @ take 1 (drop 4 data)"
  using take_add [of 4 1 data] by simp

lemma unpack_IBHH:
  "struct_unpack fmt_IBHH data =
     (if length data \<noteq> 9 then Inl StructError
      else Inr [from_be (take 4 data), from_be (take 1 (drop 4 data)),
                from_be (take 2 (drop 5 data)), from_be (take 2 (drop 7 data))])"
  by (simp add: struct_unpack_def fmt_IBHH_def)

lemma is_offer_iff:
  "is_offer data \<longleftrightarrow>
     length data = 9 \<and> from_be (take 4 data) = MAGIC_COOKIE \<and>
     from_be (take 1 (drop 4 data)) = OFFER_TYPE"
proof (cases "length data = 9")
  case True
  have l4: "length (take 4 data) = 4" and l1: "length (take 1 (drop 4 data)) = 1"
    using True by simp_all
  have "take 5 data = [0xAB, 0xCD, 0xDC, 0xBA, 0x02] \<longleftrightarrow>
        take 4 data @ take 1 (drop 4 data) = [0xAB, 0xCD, 0xDC, 0xBA] @ [0x02]"
    by (simp only: take5_split append.simps)
  also have "\<dots> \<longleftrightarrow> take 4 data = [0xAB, 0xCD, 0xDC, 0xBA] \<and> take 1 (drop 4 data) = [0x02]"
    using l4 by (intro append_eq_append_conv) simp
  finally show ?thesis
    using True
    by (simp only: is_offer_def from_be_cookie_iff [OF l4] from_be_offer_type_iff [OF l1])
next
  case False
  then show ?thesis by (simp add: is_offer_def)
qed

lemma listen_skips:
  "ignored ev \<Longrightarrow> listen_for_offers (ev # events) = listen_for_offers events"
  by (cases ev) (auto simp: ignored_def unpack_IBHH is_offer_iff)

lemma listen_skips_all:
  "list_all ignored pre \<Longrightarrow> listen_for_offers (pre @ events) = listen_for_offers events"
  by (induction pre) (simp_all add: listen_skips)

lemma port_bytes:
  assumes "length data = 9"
  shows "take 2 (drop 5 data) = [data ! 5, data ! 6]" and "take 2 (drop 7 data) = [data ! 7, data ! 8]"
  using assms by (auto simp: list_eq_iff_nth_eq nth_Cons' less_Suc_eq numeral_2_eq_2)

text \<open>
  C7. While every event is a timeout or a datagram that is not a valid Offer (wrong length,
  wrong cookie or wrong type), the discovery listener keeps waiting. On the first datagram
  that is a valid Offer it returns the sender's IP address, the TCP port read from bytes 7
  and 8 and the UDP port read from bytes 5 and 6, and looks at no later event.
\<close>

theorem listen_for_offers_first_valid:
  "(list_all ignored pre \<longrightarrow> listen_for_offers pre = Blocked) \<and>
   (list_all ignored pre \<and> is_offer data \<longrightarrow>
      listen_for_offers (pre @ Datagram data (server_ip, port) # rest) =
        Returned (server_ip, from_be [data ! 7, data ! 8], from_be [data ! 5, data ! 6]))"
proof (intro conjI impI)
  assume "list_all ignored pre"
  then show "listen_for_offers pre = Blocked"
    using listen_skips_all [of pre "[]"] by simp
next
  assume a: "list_all ignored pre \<and> is_offer data"
  then have len: "length data = 9" by (simp add: is_offer_iff)
  have "listen_for_offers (Datagram data (server_ip, port) # rest) =
        Returned (server_ip, from_be [data ! 7, data ! 8], from_be [data ! 5, data ! 6])"
    using a by (simp add: unpack_IBHH is_offer_iff port_bytes [OF len])
  with a show "listen_for_offers (pre @ Datagram data (server_ip, port) # rest) =
        Returned (server_ip, from_be [data ! 7, data ! 8], from_be [data ! 5, data ! 6])"
    by (simp add: listen_skips_all)
qed


theorem listen_for_offers_first_valid_witness:
  "list_all ignored
     [SocketTimeout,
      Datagram [0xAB, 0xCD, 0xDC, 0xBB, 0x02, 0x3A, 0x98, 0x3E, 0x80] (''172.20.10.7'', 15000),
      Datagram [0x01, 0x02, 0x03] (''172.20.10.8'', 4000)] \<and>
   is_offer [0xAB, 0xCD, 0xDC, 0xBA, 0x02, 0x3A, 0x98, 0x3E, 0x80] \<and>
   listen_for_offers
     [SocketTimeout,
      Datagram [0xAB, 0xCD, 0xDC, 0xBB, 0x02, 0x3A, 0x98, 0x3E, 0x80] (''172.20.10.7'', 15000),
      Datagram [0x01, 0x02, 0x03] (''172.20.10.8'', 4000)] = Blocked \<and>
   listen_for_offers
     [SocketTimeout,
      Datagram [0xAB, 0xCD, 0xDC, 0xBB, 0x02, 0x3A, 0x98, 0x3E, 0x80] (''172.20.10.7'', 15000),
      Datagram [0x01, 0x02, 0x03] (''172.20.10.8'', 4000),
      Datagram [0xAB, 0xCD, 0xDC, 0xBA, 0x02, 0x3A, 0x98, 0x3E, 0x80] (''172.20.10.10'', 15000),
      SocketTimeout] =
     Returned (''172.20.10.10'', 16000, 15000)"
proof -
  let ?pre = "[SocketTimeout,
      Datagram [0xAB, 0xCD, 0xDC, 0xBB, 0x02, 0x3A, 0x98, 0x3E, 0x80] (''172.20.10.7'', 15000),
      Datagram [0x01, 0x02, 0x03] (''172.20.10.8'', 4000)]"
  let ?offer = "[0xAB, 0xCD, 0xDC, 0xBA, 0x02, 0x3A, 0x98, 0x3E, 0x80 :: byte]"
  have h1: "list_all ignored ?pre"
    by (simp add: ignored_def is_offer_def)
  have h2: "is_offer ?offer"
    by (simp add: is_offer_def)
  have ports: "from_be [?offer ! 7, ?offer ! 8] = 16000" "from_be [?offer ! 5, ?offer ! 6] = 15000"
    by (simp_all add: from_be_def)
  show ?thesis
    using listen_for_offers_first_valid [of ?pre ?offer "''172.20.10.10''" 15000 "[SocketTimeout]"]
      h1 h2 ports
    by simp
qed

section \<open>Properties of the UDP transfer server\<close>

lemma unpack_IBQ:
  "struct_unpack fmt_IBQ data =
     (if length data \<noteq> 13 then Inl StructError
      else Inr [from_be (take 4 data), from_be (take 1 (drop 4 data)),
                from_be (take 8 (drop 5 data))])"
  by (simp add: struct_unpack_def fmt_IBQ_def)


lemma pack_IBQQ:
  assumes "0 \<le> a" "a < 2 ^ 32" "0 \<le> b" "b < 2 ^ 8" "0 \<le> c" "c < 2 ^ 64" "0 \<le> d" "d < 2 ^ 64"
  shows "struct_pack fmt_IBQQ [a, b, c, d] = Inr (to_be 4 a @ to_be 1 b @ to_be 8 c @ to_be 8 d)"
  using assms by (simp add: fmt_IBQQ_def)

lemma struct_pack_length:
  "struct_pack fmt xs = Inr data \<Longrightarrow> length data = sum_list fmt"
  by (induction fmt xs arbitrary: data rule: struct_pack.induct)
     (auto simp: length_to_be split: if_splits sum.splits)

lemma unpack_fields_pack:
  "struct_pack fmt xs = Inr data \<Longrightarrow> unpack_fields fmt data = xs"
  by (induction fmt xs arbitrary: data rule: struct_pack.induct)
     (auto simp: length_to_be from_be_to_be split: if_splits sum.splits)

lemma struct_unpack_pack:
  "struct_pack fmt xs = Inr data \<Longrightarrow> struct_unpack fmt data = Inr xs"
  by (simp add: struct_unpack_def struct_pack_length unpack_fields_pack)

lemma offer_message_unpacks:
  "offer_message udp_port tcp_port = Inr data \<Longrightarrow>
   struct_unpack fmt_IBHH data = Inr [MAGIC_COOKIE, OFFER_TYPE, udp_port, tcp_port]"
  by (simp add: offer_message_def struct_unpack_pack)

lemma payload_loop_ok:
  assumes "out_budget s = None" and "0 \<le> chunks" and "chunks < 2 ^ 64"
    and "\<forall>i \<in> set idxs. 0 \<le> i \<and> i < 2 ^ 64"
  shows "payload_loop file_size chunks client_address idxs s =
           (None, s\<lparr>outgoing := outgoing s @
              map (\<lambda>i. (to_be 4 MAGIC_COOKIE @ to_be 1 PAYLOAD_TYPE @ to_be 8 chunks @ to_be 8 i @
                         replicate (nat (min 1024 (file_size - 1024 * i))) 0x64,
                         client_address)) idxs\<rparr>)"
  using assms
proof (induction idxs arbitrary: s)
  case Nil
  then show ?case by simp
next
  case (Cons i idxs)
  have i: "0 \<le> i" "i < 2 ^ 64" using Cons.prems by simp_all
  have hdr: "struct_pack fmt_IBQQ [MAGIC_COOKIE, PAYLOAD_TYPE, chunks, i] =
      Inr (to_be 4 MAGIC_COOKIE @ to_be 1 PAYLOAD_TYPE @ to_be 8 chunks @ to_be 8 i)"
    using Cons.prems i by (intro pack_IBQQ) (simp_all add: MAGIC_COOKIE_def PAYLOAD_TYPE_def)
  let ?dg = "to_be 4 MAGIC_COOKIE @ to_be 1 PAYLOAD_TYPE @ to_be 8 chunks @ to_be 8 i @
               replicate (nat (min 1024 (file_size - 1024 * i))) (0x64 :: byte)"
  let ?s' = "s\<lparr>outgoing := outgoing s @ [(?dg, client_address)]\<rparr>"
  have snd: "sendto s ?dg client_address = Inr ?s'"
    using Cons.prems by (simp add: sendto_def)
  have b': "out_budget ?s' = None" using Cons.prems by simp
  have rest: "\<forall>i \<in> set idxs. 0 \<le> i \<and> i < 2 ^ 64" using Cons.prems by simp
  have "payload_loop file_size chunks client_address (i # idxs) s =
        payload_loop file_size chunks client_address idxs ?s'"
    using snd by (simp add: hdr chunk_size_def mult.commute del: to_be.simps)
  also note Cons.IH [OF b' Cons.prems(2) Cons.prems(3) rest]
  finally show ?case by simp
qed

lemma ceil_div_1024: "\<lceil>real_of_int a / 1024\<rceil> = (a + chunk_size - 1) div chunk_size"
proof -
  have "\<lceil>real_of_int a / real_of_int 1024\<rceil> = - (- a div 1024)"
    by (rule ceiling_divide_eq_div)
  also have "\<dots> = (a + 1024 - 1) div 1024" by linarith
  finally show ?thesis by (simp add: chunk_size_def)
qed

lemma request_size_range:
  assumes "struct_unpack fmt_IBQ data = Inr [magic_cookie, message_type, file_size]"
  shows "length data = 13" and "0 \<le> file_size" and "file_size < 2 ^ 64"
proof -
  show len: "length data = 13"
    using assms by (simp add: unpack_IBQ split: if_splits)
  then have fs: "file_size = from_be (take 8 (drop 5 data))"
    using assms by (simp add: unpack_IBQ)
  show "0 \<le> file_size" by (simp add: fs from_be_nonneg)
  have "from_be (take 8 (drop 5 data)) < 256 ^ length (take 8 (drop 5 data))"
    by (rule from_be_bound)
  then show "file_size < 2 ^ 64" using len by (simp add: fs)
qed

lemma handle_udp_connection_valid:
  assumes "struct_unpack fmt_IBQ data = Inr [MAGIC_COOKIE, REQUEST_TYPE, file_size]"
  shows "handle_udp_connection data client_address s =
           (case payload_loop file_size ((file_size + chunk_size - 1) div chunk_size)
                   client_address (py_range ((file_size + chunk_size - 1) div chunk_size)) s of
              (Some e, s') \<Rightarrow> (False, s')
            | (None, s') \<Rightarrow> (True, s'))"
  using assms request_size_range(1) [OF assms]
  by (simp add: handle_udp_connection_def Let_def)

text \<open>
  C5. For a valid Request whose size field is \<open>file_size\<close>, and a socket on which no
  \<^verbatim>\<open>sendto\<close> raises, the UDP handler returns \<^verbatim>\<open>True\<close> after sending exactly
  \<open>\<lceil>file_size / 1024\<rceil>\<close> datagrams to the requester. Datagram number \<open>i\<close> (from 0) has
  the 21-byte header (cookie, Payload type, number of datagrams, \<open>i\<close>) followed by
  \<open>min 1024 (file_size - 1024 * i)\<close> filler bytes. The instance below is
  \<open>file_size = 2500\<close>: three datagrams, indices 0, 1 and 2, the last with 452 filler bytes.
\<close>

theorem udp_server_payloads:
  assumes "struct_unpack fmt_IBQ data = Inr [MAGIC_COOKIE, REQUEST_TYPE, file_size]"
    and "out_budget s = None"
  shows "\<exists>out.
           handle_udp_connection data client_address s =
             (True, s\<lparr>outgoing := outgoing s @ out\<rparr>) \<and>
           int (length out) = \<lceil>real_of_int file_size / 1024\<rceil> \<and>
           (\<forall>i < length out.
              snd (out ! i) = client_address \<and>
              struct_unpack fmt_IBQQ (take 21 (fst (out ! i))) =
                Inr [MAGIC_COOKIE, PAYLOAD_TYPE, int (length out), int i] \<and>
              drop 21 (fst (out ! i)) =
                replicate (nat (min 1024 (file_size - 1024 * int i))) 0x64)"
proof -
  define chunks where "chunks = (file_size + chunk_size - 1) div chunk_size"
  define dg where "dg = (\<lambda>i. to_be 4 MAGIC_COOKIE @ to_be 1 PAYLOAD_TYPE @ to_be 8 chunks @
                     to_be 8 i @ replicate (nat (min 1024 (file_size - 1024 * i))) (0x64 :: byte))"
  define out where "out = map (\<lambda>i. (dg i, client_address)) (py_range chunks)"
  have fs: "0 \<le> file_size" "file_size < 2 ^ 64"
    using request_size_range [OF assms(1)] by simp_all
  have c0: "0 \<le> chunks" and c1: "chunks < 2 ^ 64"
    using fs unfolding chunks_def chunk_size_def by linarith+
  have idx: "\<forall>i \<in> set (py_range chunks). 0 \<le> i \<and> i < 2 ^ 64"
    using c1 by (auto simp: py_range_def)
  have loop: "payload_loop file_size chunks client_address (py_range chunks) s =
              (None, s\<lparr>outgoing := outgoing s @ out\<rparr>)"
    unfolding out_def dg_def by (rule payload_loop_ok [OF assms(2) c0 c1 idx])
  have run: "handle_udp_connection data client_address s = (True, s\<lparr>outgoing := outgoing s @ out\<rparr>)"
    using handle_udp_connection_valid [OF assms(1), of client_address s] loop
    by (simp add: chunks_def)
  have len: "int (length out) = chunks"
    using c0 by (simp add: out_def py_range_def)
  have cnt: "int (length out) = \<lceil>real_of_int file_size / 1024\<rceil>"
    by (simp add: len chunks_def ceil_div_1024)
  have each: "snd (out ! i) = client_address \<and>
              struct_unpack fmt_IBQQ (take 21 (fst (out ! i))) =
                Inr [MAGIC_COOKIE, PAYLOAD_TYPE, int (length out), int i] \<and>
              drop 21 (fst (out ! i)) =
                replicate (nat (min 1024 (file_size - 1024 * int i))) 0x64"
    if "i < length out" for i
  proof -
    have i: "i < nat chunks" using that by (simp add: out_def py_range_def)
    then have ii: "0 \<le> int i" "int i < 2 ^ 64" using c1 by simp_all
    have nth: "out ! i = (dg (int i), client_address)"
      using i by (simp add: out_def py_range_def)
    let ?hdr = "to_be 4 MAGIC_COOKIE @ to_be 1 PAYLOAD_TYPE @ to_be 8 chunks @ to_be 8 (int i)"
    have hl: "length ?hdr = 21" by (simp add: length_to_be del: to_be.simps)
    have pk: "struct_pack fmt_IBQQ [MAGIC_COOKIE, PAYLOAD_TYPE, chunks, int i] = Inr ?hdr"
      using c0 c1 ii by (intro pack_IBQQ) (simp_all add: MAGIC_COOKIE_def PAYLOAD_TYPE_def)
    have split: "dg (int i) = ?hdr @ replicate (nat (min 1024 (file_size - 1024 * int i))) 0x64"
      by (simp add: dg_def del: to_be.simps)
    have "take 21 (dg (int i)) = ?hdr" and "drop 21 (dg (int i)) =
        replicate (nat (min 1024 (file_size - 1024 * int i))) 0x64"
      using hl by (simp_all only: split take_append drop_append) simp_all
    then show ?thesis
      using struct_unpack_pack [OF pk] by (simp add: nth len)
  qed
  show ?thesis
    by (rule exI [of _ out]) (use run cnt each in simp)
qed


theorem udp_server_payloads_witness:
  "struct_unpack fmt_IBQ [0xAB, 0xCD, 0xDC, 0xBA, 0x03, 0, 0, 0, 0, 0, 0, 0x09, 0xC4] =
     Inr [MAGIC_COOKIE, REQUEST_TYPE, 2500] \<and>
   out_budget \<lparr>outgoing = [], out_budget = None\<rparr> = None \<and>
   (\<exists>out.
      handle_udp_connection [0xAB, 0xCD, 0xDC, 0xBA, 0x03, 0, 0, 0, 0, 0, 0, 0x09, 0xC4]
        (''172.20.10.3'', 50000) \<lparr>outgoing = [], out_budget = None\<rparr> =
        (True, \<lparr>outgoing = out, out_budget = None\<rparr>) \<and>
      length out = 3 \<and>
      struct_unpack fmt_IBQQ (take 21 (fst (out ! 0))) = Inr [MAGIC_COOKIE, PAYLOAD_TYPE, 3, 0] \<and>
      struct_unpack fmt_IBQQ (take 21 (fst (out ! 1))) = Inr [MAGIC_COOKIE, PAYLOAD_TYPE, 3, 1] \<and>
      struct_unpack fmt_IBQQ (take 21 (fst (out ! 2))) = Inr [MAGIC_COOKIE, PAYLOAD_TYPE, 3, 2] \<and>
      drop 21 (fst (out ! 0)) = replicate 1024 0x64 \<and>
      drop 21 (fst (out ! 1)) = replicate 1024 0x64 \<and>
      drop 21 (fst (out ! 2)) = replicate 452 0x64)"
proof -
  let ?req = "[0xAB, 0xCD, 0xDC, 0xBA, 0x03, 0, 0, 0, 0, 0, 0, 0x09, 0xC4] :: byte list"
  let ?s = "\<lparr>outgoing = [], out_budget = None\<rparr>"
  have h1: "struct_unpack fmt_IBQ ?req = Inr [MAGIC_COOKIE, REQUEST_TYPE, 2500]"
    by (simp add: struct_unpack_def fmt_IBQ_def from_be_def MAGIC_COOKIE_def REQUEST_TYPE_def)
  have h2: "out_budget ?s = None" by simp
  from udp_server_payloads [OF h1 h2, of "(''172.20.10.3'', 50000)"]
  obtain out where run: "handle_udp_connection ?req (''172.20.10.3'', 50000) ?s =
        (True, ?s\<lparr>outgoing := outgoing ?s @ out\<rparr>)"
    and cnt: "int (length out) = \<lceil>real_of_int 2500 / 1024\<rceil>"
    and each: "\<And>i. i < length out \<Longrightarrow>
        struct_unpack fmt_IBQQ (take 21 (fst (out ! i))) =
          Inr [MAGIC_COOKIE, PAYLOAD_TYPE, int (length out), int i] \<and>
        drop 21 (fst (out ! i)) = replicate (nat (min 1024 (2500 - 1024 * int i))) 0x64"
    by auto
  have n: "length out = 3" using cnt by simp
  have e0: "struct_unpack fmt_IBQQ (take 21 (fst (out ! 0))) = Inr [MAGIC_COOKIE, PAYLOAD_TYPE, 3, 0]"
      "drop 21 (fst (out ! 0)) = replicate 1024 0x64"
    using each [of 0] n by simp_all
  have e1: "struct_unpack fmt_IBQQ (take 21 (fst (out ! 1))) = Inr [MAGIC_COOKIE, PAYLOAD_TYPE, 3, 1]"
      "drop 21 (fst (out ! 1)) = replicate 1024 0x64"
    using each [of 1] n by simp_all
  have e2: "struct_unpack fmt_IBQQ (take 21 (fst (out ! 2))) = Inr [MAGIC_COOKIE, PAYLOAD_TYPE, 3, 2]"
      "drop 21 (fst (out ! 2)) = replicate 452 0x64"
    using each [of 2] n by simp_all
  have run': "handle_udp_connection ?req (''172.20.10.3'', 50000) ?s =
        (True, \<lparr>outgoing = out, out_budget = None\<rparr>)"
    using run by simp
  show ?thesis
    using h1 h2 run' n e0 e1 e2 by (intro conjI exI [of _ out])
qed

text \<open>
  C10. A well-formed Request with the right cookie and type whose size field is 0 makes the
  UDP handler send nothing and return \<^verbatim>\<open>True\<close>: the number of chunks is 0 and the loop
  body never runs. The handler has no test that the size is positive.
\<close>

theorem udp_zero_size_request:
  assumes "struct_unpack fmt_IBQ data = Inr [MAGIC_COOKIE, REQUEST_TYPE, 0]"
  shows "handle_udp_connection data client_address s = (True, s)"
  using handle_udp_connection_valid [OF assms, of client_address s]
  by (simp add: chunk_size_def py_range_def)

theorem udp_zero_size_request_witness:
  "struct_unpack fmt_IBQ [0xAB, 0xCD, 0xDC, 0xBA, 0x03, 0, 0, 0, 0, 0, 0, 0, 0] =
     Inr [MAGIC_COOKIE, REQUEST_TYPE, 0] \<and>
   handle_udp_connection [0xAB, 0xCD, 0xDC, 0xBA, 0x03, 0, 0, 0, 0, 0, 0, 0, 0]
     (''172.20.10.3'', 50000) \<lparr>outgoing = [], out_budget = None\<rparr> =
     (True, \<lparr>outgoing = [], out_budget = None\<rparr>)"
proof -
  let ?req = "[0xAB, 0xCD, 0xDC, 0xBA, 0x03, 0, 0, 0, 0, 0, 0, 0, 0] :: byte list"
  have h: "struct_unpack fmt_IBQ ?req = Inr [MAGIC_COOKIE, REQUEST_TYPE, 0]"
    by (simp add: struct_unpack_def fmt_IBQ_def from_be_def MAGIC_COOKIE_def REQUEST_TYPE_def)
  show ?thesis
    using h udp_zero_size_request [OF h, of "(''172.20.10.3'', 50000)"
        "\<lparr>outgoing = [], out_budget = None\<rparr>"]
    by simp
qed

lemma udp_server_rejects_wrong_cookie:
  assumes "take 4 data \<noteq> [0xAB, 0xCD, 0xDC, 0xBA]"
  shows "handle_udp_connection data client_address s = (False, s)"
proof (cases "length data = 13")
  case True
  then have "length (take 4 data) = 4" by simp
  then have "from_be (take 4 data) \<noteq> MAGIC_COOKIE"
    using assms by (simp add: from_be_cookie_iff)
  then show ?thesis
    using True by (simp add: handle_udp_connection_def unpack_IBQ)
next
  case False
  then show ?thesis by (simp add: handle_udp_connection_def)
qed

section \<open>Properties of the UDP transfer client\<close>

text \<open>
  C1. The claim is that \<^verbatim>\<open>received_segments\<close> is incremented, and
  \<^verbatim>\<open>total_segment_count\<close> recorded, only on a valid Payload, and that any other datagram
  leaves both unchanged. In the loop the increment precedes every test and the header's
  count is stored before the cookie and type are compared. Run from the initial state: a
  3-byte datagram raises \<^verbatim>\<open>received_segments\<close> to 1; a 21-byte datagram with the right
  cookie and the Offer type \<open>0x02\<close> raises it to 1 and stores its count field 5; and a short
  datagram followed by the only Payload of a one-segment transfer ends, at the idle
  timeout, with 2 segments received of 1 and a success rate of 200.
\<close>

theorem invalid_datagrams_are_counted:
  "udp_receive_loop [Recv [0x01, 0x02, 0x03], RecvTimeout True] transfer_start =
     (Idle, \<lparr>received_segments = 1, total_segment_count = 0\<rparr>) \<and>
   udp_receive_loop
     [Recv [0xAB, 0xCD, 0xDC, 0xBA, 0x02, 0, 0, 0, 0, 0, 0, 0, 5, 0, 0, 0, 0, 0, 0, 0, 0],
      RecvTimeout True] transfer_start =
     (Idle, \<lparr>received_segments = 1, total_segment_count = 5\<rparr>) \<and>
   udp_receive_loop
     [Recv [0x01, 0x02, 0x03],
      Recv [0xAB, 0xCD, 0xDC, 0xBA, 0x04, 0, 0, 0, 0, 0, 0, 0, 1, 0, 0, 0, 0, 0, 0, 0, 0, 0x64],
      RecvTimeout True] transfer_start =
     (Idle, \<lparr>received_segments = 2, total_segment_count = 1\<rparr>) \<and>
   success_rate \<lparr>received_segments = 2, total_segment_count = 1\<rparr> = 200"
  by (simp add: transfer_start_def struct_unpack_def fmt_IBQQ_def from_be_def
      MAGIC_COOKIE_def PAYLOAD_TYPE_def success_rate_def)

text \<open>
  C3. The claim is that a datagram whose first four bytes are not the magic cookie is
  rejected by the server's Request decoder, which then sends nothing, and by the client's
  Payload decoder, without effect on the transfer state. The server half holds (lemma
  \<open>udp_server_rejects_wrong_cookie\<close>). The client half does not: a 21-byte datagram with
  cookie \<open>0x00000000\<close>, type \<open>0x04\<close> and count field 7, received in a transfer that has
  counted 2 segments of 3, leaves the loop with 3 segments counted and 7 expected.
\<close>

theorem wrong_cookie_payload_changes_state:
  "take 4 [0x00, 0x00, 0x00, 0x00, 0x04, 0, 0, 0, 0, 0, 0, 0, 7, 0, 0, 0, 0, 0, 0, 0, 0 :: byte]
     \<noteq> [0xAB, 0xCD, 0xDC, 0xBA] \<and>
   udp_receive_loop
     [Recv [0x00, 0x00, 0x00, 0x00, 0x04, 0, 0, 0, 0, 0, 0, 0, 7, 0, 0, 0, 0, 0, 0, 0, 0]]
     \<lparr>received_segments = 2, total_segment_count = 3\<rparr> =
     (Waiting, \<lparr>received_segments = 3, total_segment_count = 7\<rparr>)"
  by (simp add: struct_unpack_def fmt_IBQQ_def from_be_def MAGIC_COOKIE_def PAYLOAD_TYPE_def)















section \<open>Properties of the TCP transfer server\<close>

lemma ascii_db_sample: "ascii_db latin_arabic_db"
  by (simp add: ascii_db_def latin_arabic_db_def upt_conv_Cons)

lemma ascii_db_digit:
  assumes "ascii_db db" and "48 \<le> c" and "c \<le> 57"
  shows "isdigit db c" and "decimal db c = Some (c - 48)" and "\<not> isspace db c"
proof -
  have "c \<in> {48..<58}" using assms(2,3) by simp
  then have "c \<in> set [48..<58]" by (simp only: set_upt)
  moreover have "\<forall>c \<in> set [48..<58]. isdigit db c \<and> decimal db c = Some (c - 48) \<and> \<not> isspace db c"
    using assms(1) unfolding ascii_db_def list_all_iff by blast
  ultimately show "isdigit db c" and "decimal db c = Some (c - 48)" and "\<not> isspace db c"
    by blast+
qed

lemma ascii_db_newline: "ascii_db db \<Longrightarrow> isspace db 10"
  by (simp add: ascii_db_def)

lemma tcp_send_loop_ok:
  assumes "tx_budget s = None"
  shows "\<exists>chunks.
           tcp_send_loop file_size_bytes total_bytes_sent s = (None, s\<lparr>tx := tx s @ chunks\<rparr>) \<and>
           (\<forall>c \<in> set chunks. length c \<le> 1024) \<and>
           concat chunks = replicate (nat (file_size_bytes - total_bytes_sent)) 0x61"
  using assms
proof (induction file_size_bytes total_bytes_sent s rule: tcp_send_loop.induct)
  case (1 fs total s)
  show ?case
  proof (cases "total < fs")
    case False
    then have "tcp_send_loop fs total s = (None, s\<lparr>tx := tx s @ []\<rparr>)"
      by (simp add: tcp_send_loop.simps [of fs total s])
    moreover have "concat [] = replicate (nat (fs - total)) (0x61 :: byte)"
      using False by simp
    ultimately show ?thesis by (intro exI [of _ "[]"]) simp
  next
    case True
    define chunk where "chunk = replicate (nat (min chunk_size (fs - total))) (0x61 :: byte)"
    define s' where "s' = s\<lparr>tx := tx s @ [chunk]\<rparr>"
    have snd: "sendall s chunk = Inr s'"
      using "1.prems" by (simp add: sendall_def s'_def)
    have b: "tx_budget s' = None" using "1.prems" by (simp add: s'_def)
    have k: "int (length chunk) = min chunk_size (fs - total)"
      using True by (simp add: chunk_def chunk_size_def)
    from "1.IH" [OF True refl chunk_def snd b]
    obtain chunks' where
      run': "tcp_send_loop fs (total + int (length chunk)) s' = (None, s'\<lparr>tx := tx s' @ chunks'\<rparr>)"
      and small': "\<forall>c \<in> set chunks'. length c \<le> 1024"
      and all': "concat chunks' = replicate (nat (fs - (total + int (length chunk)))) 0x61"
      by blast
    have run: "tcp_send_loop fs total s = (None, s\<lparr>tx := tx s @ (chunk # chunks')\<rparr>)"
      using True snd run'
      by (simp add: tcp_send_loop.simps [of fs total s] Let_def chunk_def [symmetric] s'_def)
    have small: "\<forall>c \<in> set (chunk # chunks'). length c \<le> 1024"
      using small' by (simp add: chunk_def chunk_size_def)
    have sum_eq: "nat (min chunk_size (fs - total)) +
                  nat (fs - (total + min chunk_size (fs - total))) = nat (fs - total)"
      using True by (simp add: chunk_size_def)
    have "concat (chunk # chunks') = chunk @ concat chunks'" by simp
    also have "\<dots> = chunk @ replicate (nat (fs - (total + min chunk_size (fs - total)))) 0x61"
      by (simp only: all' k)
    also have "\<dots> = replicate (nat (min chunk_size (fs - total))) 0x61 @
                     replicate (nat (fs - (total + min chunk_size (fs - total)))) 0x61"
      by (simp only: chunk_def)
    also have "\<dots> = replicate (nat (min chunk_size (fs - total)) +
                     nat (fs - (total + min chunk_size (fs - total)))) 0x61"
      by (simp only: replicate_add)
    also have "\<dots> = replicate (nat (fs - total)) 0x61"
      by (simp only: sum_eq)
    finally have all: "concat (chunk # chunks') = replicate (nat (fs - total)) 0x61" .
    from run small all show ?thesis by blast
  qed
qed


lemma unat_ascii: "c < 128 \<Longrightarrow> unat (of_nat c :: byte) = c"
  by (simp add: unsigned_of_nat take_bit_nat_eq_self)

lemma decode_ascii:
  assumes "\<forall>c \<in> set cs. c < 128"
  shows "decode (encode cs) = Inr cs"
  using assms
proof (induction cs)
  case Nil
  show ?case by (simp add: encode_def decode.simps [of "[]"])
next
  case (Cons c cs)
  have c: "c < 128" using Cons.prems by simp
  have nx: "utf8_next (of_nat c # encode cs) = Some (c, encode cs)"
    using c by (simp add: unat_ascii)
  have ih: "decode (encode cs) = Inr cs" using Cons by simp
  show ?case
    using nx ih by (simp add: encode_def decode.simps [of "of_nat c # map of_nat cs"])
qed

lemma decimal_digits_range: "\<forall>c \<in> set (decimal_digits n). 48 \<le> c \<and> c \<le> 57"
proof (induction n rule: decimal_digits.induct)
  case (1 n)
  show ?case
  proof (cases "n < 10")
    case True
    then show ?thesis by (simp add: decimal_digits.simps [of n])
  next
    case False
    have "n mod 10 < 10" by simp
    then have "48 + n mod 10 \<le> 57" by linarith
    with False "1.IH" show ?thesis by (simp add: decimal_digits.simps [of n])
  qed
qed

lemma decimal_digits_nonempty: "decimal_digits n \<noteq> []"
  by (simp add: decimal_digits.simps [of n])

lemma decimal_digits_value:
  assumes "ascii_db db"
  shows "foldl (\<lambda>acc c. acc * 10 + int (the (decimal db c))) 0 (decimal_digits n) = int n"
proof (induction n rule: decimal_digits.induct)
  case (1 n)
  show ?case
  proof (cases "n < 10")
    case True
    then have "decimal db (48 + n) = Some (48 + n - 48)"
      by (intro ascii_db_digit(2) [OF assms]) simp_all
    with True show ?thesis by (simp add: decimal_digits.simps [of n])
  next
    case False
    have "n mod 10 < 10" by simp
    then have "48 + n mod 10 \<le> 57" by linarith
    then have "decimal db (48 + n mod 10) = Some (48 + n mod 10 - 48)"
      by (intro ascii_db_digit(2) [OF assms]) simp_all
    with False "1.IH" show ?thesis
      by (simp add: decimal_digits.simps [of n] zmod_int zdiv_int)
  qed
qed

lemma strip_line:
  assumes "ds \<noteq> []" and "\<forall>c \<in> set ds. \<not> isspace db c" and "isspace db 10"
  shows "strip db (ds @ [10]) = ds"
proof -
  have h: "\<not> isspace db (hd ds)" and l: "\<not> isspace db (last ds)"
    using assms(1,2) by simp_all
  have "dropWhile (isspace db) (ds @ [10]) = ds @ [10]"
    using assms(1) h by (cases ds) simp_all
  moreover have "dropWhile (isspace db) (rev (ds @ [10])) = rev ds"
    using assms(1,3) l by (cases "rev ds") (simp_all add: last_rev [symmetric] hd_rev)
  ultimately show ?thesis by (simp add: strip_def)
qed

lemma request_line_parses:
  assumes "ascii_db db" and "0 \<le> n"
  shows "decode (encode (str_of_int n @ [10])) = Inr (str_of_int n @ [10])"
    and "strip db (str_of_int n @ [10]) = str_of_int n"
    and "str_of_int n \<noteq> []"
    and "str_isdigit db (str_of_int n)"
    and "py_int db (str_of_int n) = Inr n"
proof -
  have s: "str_of_int n = decimal_digits (nat n)" using assms(2) by (simp add: str_of_int_def)
  have rng: "\<forall>c \<in> set (str_of_int n). 48 \<le> c \<and> c \<le> 57"
    unfolding s by (rule decimal_digits_range)
  show ne: "str_of_int n \<noteq> []" unfolding s by (rule decimal_digits_nonempty)
  have "\<forall>c \<in> set (str_of_int n @ [10]). c < 128" using rng by auto
  then show "decode (encode (str_of_int n @ [10])) = Inr (str_of_int n @ [10])"
    by (rule decode_ascii)
  have nsp: "\<forall>c \<in> set (str_of_int n). \<not> isspace db c"
    using rng ascii_db_digit(3) [OF assms(1)] by blast
  show "strip db (str_of_int n @ [10]) = str_of_int n"
    by (rule strip_line [OF ne nsp ascii_db_newline [OF assms(1)]])
  have dg: "\<forall>c \<in> set (str_of_int n). isdigit db c"
    using rng ascii_db_digit(1) [OF assms(1)] by blast
  then show "str_isdigit db (str_of_int n)"
    using ne by (simp add: str_isdigit_def list_all_iff)
  have dc: "\<forall>c \<in> set (str_of_int n). decimal db c \<noteq> None"
    using rng ascii_db_digit(2) [OF assms(1)] by fastforce
  show "py_int db (str_of_int n) = Inr n"
    using ne dc assms(2) decimal_digits_value [OF assms(1), of "nat n"]
    by (simp add: py_int_def list_all_iff s)
qed


lemma handle_tcp_accepts:
  assumes "recv s 1024 = Inr raw" and "decode raw = Inr text"
    and "strip db text \<noteq> []" and "str_isdigit db (strip db text)"
    and "py_int db (strip db text) = Inr n" and "0 < n"
  shows "handle_tcp_connection db s =
           (case tcp_send_loop n 0 s of
              (Some e, s') \<Rightarrow> (False, tcp_close s')
            | (None, s') \<Rightarrow> (True, tcp_close s'))"
  using assms
  by (simp add: handle_tcp_connection_def Let_def split: prod.splits option.splits)

text \<open>
  C4. When \<^verbatim>\<open>recv\<close> returns the request line of a positive integer \<open>N\<close> (its decimal
  digits and a newline, as the client writes it) and no \<^verbatim>\<open>sendall\<close> raises, the TCP
  handler returns \<^verbatim>\<open>True\<close> after writing chunks of at most 1024 bytes each whose lengths
  add up to exactly \<open>N\<close>, and the socket is closed.
\<close>

theorem tcp_server_sends_exactly:
  assumes "ascii_db db" and "0 < N"
    and "recv client_socket 1024 = Inr (encode (str_of_int N @ [10]))"
    and "tx_budget client_socket = None"
  shows "\<exists>chunks.
           handle_tcp_connection db client_socket =
             (True, client_socket\<lparr>tx := tx client_socket @ chunks, closed := True\<rparr>) \<and>
           (\<forall>c \<in> set chunks. length c \<le> 1024) \<and>
           int (length (concat chunks)) = N"
proof -
  have n0: "0 \<le> N" using assms(2) by simp
  note p = request_line_parses [OF assms(1) n0]
  have run: "handle_tcp_connection db client_socket =
           (case tcp_send_loop N 0 client_socket of
              (Some e, s') \<Rightarrow> (False, tcp_close s')
            | (None, s') \<Rightarrow> (True, tcp_close s'))"
    by (rule handle_tcp_accepts [OF assms(3) p(1)]) (simp_all add: p assms(2))
  from tcp_send_loop_ok [OF assms(4), of N 0]
  obtain chunks where
    loop: "tcp_send_loop N 0 client_socket = (None, client_socket\<lparr>tx := tx client_socket @ chunks\<rparr>)"
    and small: "\<forall>c \<in> set chunks. length c \<le> 1024"
    and all: "concat chunks = replicate (nat (N - 0)) 0x61"
    by blast
  have "handle_tcp_connection db client_socket =
          (True, client_socket\<lparr>tx := tx client_socket @ chunks, closed := True\<rparr>)"
    by (simp add: run loop tcp_close_def)
  moreover have "int (length (concat chunks)) = N"
    using assms(2) by (simp add: all)
  ultimately show ?thesis using small by blast
qed

theorem tcp_server_sends_exactly_witness:
  "ascii_db latin_arabic_db \<and> (0 :: int) < 2500 \<and>
   recv \<lparr>rx = Inr [0x32, 0x35, 0x30, 0x30, 0x0A], tx = [], tx_budget = None, closed = False\<rparr> 1024 =
     Inr (encode (str_of_int 2500 @ [10])) \<and>
   tx_budget \<lparr>rx = Inr [0x32, 0x35, 0x30, 0x30, 0x0A], tx = [], tx_budget = None,
              closed = False\<rparr> = None \<and>
   (\<exists>chunks.
      handle_tcp_connection latin_arabic_db
        \<lparr>rx = Inr [0x32, 0x35, 0x30, 0x30, 0x0A], tx = [], tx_budget = None, closed = False\<rparr> =
        (True, \<lparr>rx = Inr [0x32, 0x35, 0x30, 0x30, 0x0A], tx = chunks, tx_budget = None,
                closed = True\<rparr>) \<and>
      (\<forall>c \<in> set chunks. length c \<le> 1024) \<and>
      int (length (concat chunks)) = 2500)"
proof -
  let ?s = "\<lparr>rx = Inr [0x32, 0x35, 0x30, 0x30, 0x0A :: byte], tx = [], tx_budget = None,
             closed = False\<rparr>"
  have h1: "ascii_db latin_arabic_db" by (rule ascii_db_sample)
  have h2: "(0 :: int) < 2500" by simp
  have line: "encode (str_of_int 2500 @ [10]) = [0x32, 0x35, 0x30, 0x30, 0x0A]"
    by code_simp
  have h3: "recv ?s 1024 = Inr (encode (str_of_int 2500 @ [10]))"
    by (simp add: recv_def line)
  have h4: "tx_budget ?s = None" by simp
  from tcp_server_sends_exactly [OF h1 h2 h3 h4]
  obtain chunks where
    "handle_tcp_connection latin_arabic_db ?s =
       (True, ?s\<lparr>tx := tx ?s @ chunks, closed := True\<rparr>)"
    and "\<forall>c \<in> set chunks. length c \<le> 1024"
    and "int (length (concat chunks)) = 2500"
    by blast
  then have "\<exists>chunks.
      handle_tcp_connection latin_arabic_db ?s =
        (True, \<lparr>rx = Inr [0x32, 0x35, 0x30, 0x30, 0x0A], tx = chunks, tx_budget = None,
                closed = True\<rparr>) \<and>
      (\<forall>c \<in> set chunks. length c \<le> 1024) \<and>
      int (length (concat chunks)) = 2500"
    by (intro exI [of _ chunks]) simp
  with h1 h2 h3 h4 show ?thesis by blast
qed

text \<open>
  C9, as amended. When the stripped request is empty, or has a character that
  \<^verbatim>\<open>str.isdigit\<close> rejects, or is refused by \<^verbatim>\<open>int\<close> with a \<^verbatim>\<open>ValueError\<close>, or has a value
  that is not positive (the value 0), the TCP handler returns \<^verbatim>\<open>False\<close>, has written
  nothing, and has closed the socket; it touches no other socket. The test is
  \<^verbatim>\<open>str.isdigit\<close>, not a test for ASCII digits.
\<close>

theorem tcp_server_rejects:
  assumes "recv s 1024 = Inr raw" and "decode raw = Inr text"
    and "strip db text = [] \<or> \<not> list_all (isdigit db) (strip db text) \<or>
         py_int db (strip db text) = Inl ValueError \<or>
         (\<exists>n \<le> 0. py_int db (strip db text) = Inr n)"
  shows "handle_tcp_connection db s = (False, s\<lparr>closed := True\<rparr>)"
  using assms
  by (auto simp: handle_tcp_connection_def Let_def str_isdigit_def tcp_close_def)

lemma handle_tcp_undecodable:
  assumes "recv s 1024 = Inl e \<or> (\<exists>raw e'. recv s 1024 = Inr raw \<and> decode raw = Inl e')"
  shows "handle_tcp_connection db s = (False, s\<lparr>closed := True\<rparr>)"
  using assms
  by (auto simp: handle_tcp_connection_def Let_def tcp_close_def)

theorem tcp_server_rejects_witness:
  "recv \<lparr>rx = Inr [0x30, 0x0A], tx = [], tx_budget = None, closed = False\<rparr> 1024 =
     Inr [0x30, 0x0A] \<and>
   decode [0x30, 0x0A] = Inr [48, 10] \<and>
   (\<exists>n \<le> 0. py_int latin_arabic_db (strip latin_arabic_db [48, 10]) = Inr n) \<and>
   handle_tcp_connection latin_arabic_db
     \<lparr>rx = Inr [0x30, 0x0A], tx = [], tx_budget = None, closed = False\<rparr> =
     (False, \<lparr>rx = Inr [0x30, 0x0A], tx = [], tx_budget = None, closed = True\<rparr>)"
proof -
  let ?s = "\<lparr>rx = Inr [0x30, 0x0A :: byte], tx = [], tx_budget = None, closed = False\<rparr>"
  have h1: "recv ?s 1024 = Inr [0x30, 0x0A]" by (simp add: recv_def)
  have h2: "decode [0x30, 0x0A] = Inr [48, 10]" by code_simp
  have v: "py_int latin_arabic_db (strip latin_arabic_db [48, 10]) = Inr 0" by code_simp
  then have h3: "\<exists>n \<le> 0. py_int latin_arabic_db (strip latin_arabic_db [48, 10]) = Inr n"
    by simp
  have "handle_tcp_connection latin_arabic_db ?s = (False, ?s\<lparr>closed := True\<rparr>)"
    using tcp_server_rejects [OF h1 h2, of latin_arabic_db] h3 by blast
  then show ?thesis using h1 h2 h3 by simp
qed


text \<open>
  The claim as first stated also asks that a request which is not an ASCII decimal integer
  be refused. The three bytes \<open>D9 A3 0A\<close> are the UTF-8 encoding of U+0663, the
  Arabic-Indic digit three, and a newline: \<^verbatim>\<open>isdigit\<close> accepts the digit, \<^verbatim>\<open>int\<close> reads
  it as 3, and the handler writes three bytes.
\<close>

theorem unicode_digit_request_is_served:
  "handle_tcp_connection latin_arabic_db
     \<lparr>rx = Inr [0xD9, 0xA3, 0x0A], tx = [], tx_budget = None, closed = False\<rparr> =
     (True, \<lparr>rx = Inr [0xD9, 0xA3, 0x0A], tx = [[0x61, 0x61, 0x61]], tx_budget = None,
             closed = True\<rparr>)"
  by code_simp

section \<open>Properties of the clients' requests\<close>




end
